theory Spec2Isabelle
  imports Complex_Main "HOL-Library.AList"
begin

section \<open>Python values\<close>

text \<open>
  The program handles loosely typed values taken from a provider's field bag: \<open>None\<close>,
  numbers and strings. A number is modelled by its exact rational value, or by one of the
  three special floats; Python's \<open>int\<close> and \<open>float\<close> share the constructor \<open>PNum\<close>.
  Binary rounding of floats, the negative zero and overflow to infinity are not modelled:
  arithmetic on finite values is exact.
\<close>

datatype pyfloat = Fin rat | PInf | NInf | NaN

datatype pyval = PNone | PNum pyfloat | PStr string

datatype exn = ValueError | TypeError | IndexError | KeyError | LookupFailure

subsection \<open>Float operations used by the program\<close>

fun f_abs :: "pyfloat \<Rightarrow> pyfloat" where
  "f_abs (Fin q) = Fin (abs q)"
| "f_abs PInf = PInf"
| "f_abs NInf = PInf"
| "f_abs NaN = NaN"

fun f_neg :: "pyfloat \<Rightarrow> pyfloat" where
  "f_neg (Fin q) = Fin (- q)"
| "f_neg PInf = NInf"
| "f_neg NInf = PInf"
| "f_neg NaN = NaN"

text \<open>\<open>x >= c\<close> and \<open>x > c\<close> against a finite constant; every comparison with NaN is false.\<close>

fun f_ge :: "pyfloat \<Rightarrow> rat \<Rightarrow> bool" where
  "f_ge (Fin q) c = (c \<le> q)"
| "f_ge PInf c = True"
| "f_ge NInf c = False"
| "f_ge NaN c = False"

fun f_gt :: "pyfloat \<Rightarrow> rat \<Rightarrow> bool" where
  "f_gt (Fin q) c = (c < q)"
| "f_gt PInf c = True"
| "f_gt NInf c = False"
| "f_gt NaN c = False"


text \<open>\<open>x / c\<close> and \<open>x * c\<close> for a positive finite constant \<open>c\<close>.\<close>

fun f_div :: "pyfloat \<Rightarrow> rat \<Rightarrow> pyfloat" where
  "f_div (Fin q) c = Fin (q / c)"
| "f_div x c = x"

fun f_mul :: "pyfloat \<Rightarrow> rat \<Rightarrow> pyfloat" where
  "f_mul (Fin q) c = Fin (q * c)"
| "f_mul x c = x"

fun f_sub :: "pyfloat \<Rightarrow> pyfloat \<Rightarrow> pyfloat" where
  "f_sub (Fin a) (Fin b) = Fin (a - b)"
| "f_sub NaN y = NaN"
| "f_sub x NaN = NaN"
| "f_sub PInf PInf = NaN"
| "f_sub NInf NInf = NaN"
| "f_sub PInf y = PInf"
| "f_sub NInf y = NInf"
| "f_sub (Fin a) PInf = NInf"
| "f_sub (Fin a) NInf = PInf"

subsection \<open>The format specification \<open>.2f\<close>\<close>

definition digit_char :: "nat \<Rightarrow> char" where
  "digit_char n = ''0123456789'' ! n"

definition is_digit :: "char \<Rightarrow> bool" where
  "is_digit c = (c \<in> set ''0123456789'')"

text \<open>The decimal digits of a non-negative integer.\<close>

function show_nat :: "int \<Rightarrow> string" where
  "show_nat n =
     (if n < 10 then [digit_char (nat n)]
      else show_nat (n div 10) @ [digit_char (nat (n mod 10))])"
  by pat_completeness auto
termination
  by (relation "measure nat") auto

declare show_nat.simps [simp del]

text \<open>
  Python rounds the stored value correctly to the requested digits; a value exactly half
  way between two candidates goes to the even one.
\<close>

definition round_half_even :: "rat \<Rightarrow> int" where
  "round_half_even q =
     (let f = floor q; r = q - of_int f
      in if r < 1 / 2 then f else if 1 / 2 < r then f + 1 else if even f then f else f + 1)"

definition fmt2_fin :: "rat \<Rightarrow> string" where
  "fmt2_fin q =
     (let n = round_half_even (abs q * 100)
      in (if q < 0 then ''-'' else '''') @ show_nat (n div 100) @ ''.''
           @ [digit_char (nat (n mod 100 div 10)), digit_char (nat (n mod 10))])"

fun fmt2 :: "pyfloat \<Rightarrow> string" where
  "fmt2 (Fin q) = fmt2_fin q"
| "fmt2 PInf = ''inf''"
| "fmt2 NInf = ''-inf''"
| "fmt2 NaN = ''nan''"


subsection \<open>The conversion \<open>float(s)\<close> of a string\<close>

text \<open>
  \<open>float\<close> accepts, between optional white space, an optional sign followed by a decimal
  number (digits that may be grouped by single underscores, an optional fraction, an
  optional exponent) or by one of the words inf, infinity and nan in any letter case.
  Anything else raises \<open>ValueError\<close>. Only ASCII input is modelled.
\<close>

definition is_space :: "char \<Rightarrow> bool" where
  "is_space c = (let n = (of_char c :: nat) in n = 32 \<or> (9 \<le> n \<and> n \<le> 13) \<or> (28 \<le> n \<and> n \<le> 31))"

definition to_lower :: "char \<Rightarrow> char" where
  "to_lower c = (let n = (of_char c :: nat) in if 65 \<le> n \<and> n \<le> 90 then char_of (n + 32) else c)"

definition digit_val :: "char \<Rightarrow> int" where
  "digit_val c = of_char c - 48"

definition strip_chars :: "(char \<Rightarrow> bool) \<Rightarrow> string \<Rightarrow> string" where
  "strip_chars P s = rev (dropWhile P (rev (dropWhile P s)))"

fun digitpart_more :: "string \<Rightarrow> string \<Rightarrow> string \<times> string" where
  "digitpart_more acc [] = (acc, [])"
| "digitpart_more acc (c # cs) =
     (if is_digit c then digitpart_more (acc @ [c]) cs
      else if c = CHR ''_'' then
        (case cs of
           [] \<Rightarrow> (acc, c # cs)
         | d # ds \<Rightarrow> if is_digit d then digitpart_more (acc @ [d]) ds else (acc, c # cs))
      else (acc, c # cs))"

definition digitpart :: "string \<Rightarrow> (string \<times> string) option" where
  "digitpart s =
     (case s of
        [] \<Rightarrow> None
      | c # cs \<Rightarrow> if is_digit c then Some (digitpart_more [c] cs) else None)"

definition int_of_digits :: "string \<Rightarrow> int" where
  "int_of_digits ds = foldl (\<lambda>a c. 10 * a + digit_val c) 0 ds"

definition parse_number :: "string \<Rightarrow> ((string \<times> string) \<times> string) option" where
  "parse_number s =
     (case s of
        [] \<Rightarrow> None
      | c # cs \<Rightarrow>
          if c = CHR ''.'' then
            (case digitpart cs of
               None \<Rightarrow> None
             | Some (fd, r) \<Rightarrow> Some (([], fd), r))
          else
            (case digitpart s of
               None \<Rightarrow> None
             | Some (ip, r) \<Rightarrow>
                 (case r of
                    [] \<Rightarrow> Some ((ip, []), [])
                  | d # r' \<Rightarrow>
                      if d = CHR ''.'' then
                        (case digitpart r' of
                           None \<Rightarrow> Some ((ip, []), r')
                         | Some (fd, r'') \<Rightarrow> Some ((ip, fd), r''))
                      else Some ((ip, []), r))))"

definition parse_exponent :: "string \<Rightarrow> int option" where
  "parse_exponent r =
     (case r of
        [] \<Rightarrow> Some 0
      | e # r1 \<Rightarrow>
          if e = CHR ''e'' \<or> e = CHR ''E'' then
            (case r1 of
               [] \<Rightarrow> None
             | sg # r2 \<Rightarrow>
                 (case digitpart (if sg = CHR ''-'' \<or> sg = CHR ''+'' then r2 else r1) of
                    None \<Rightarrow> None
                  | Some (ed, rest) \<Rightarrow>
                      if rest = [] then
                        Some (if sg = CHR ''-'' then - int_of_digits ed else int_of_digits ed)
                      else None))
          else None)"

definition decimal_value :: "string \<Rightarrow> string \<Rightarrow> int \<Rightarrow> rat" where
  "decimal_value ip fd e =
     (let m = of_int (int_of_digits (ip @ fd)) / 10 ^ length fd
      in if 0 \<le> e then m * 10 ^ nat e else m / 10 ^ nat (- e))"

definition parse_special :: "string \<Rightarrow> pyfloat option" where
  "parse_special s =
     (let l = map to_lower s
      in if l = ''inf'' \<or> l = ''infinity'' then Some PInf
         else if l = ''nan'' then Some NaN
         else None)"

definition py_float_str :: "string \<Rightarrow> pyfloat option" where
  "py_float_str s =
     (case strip_chars is_space s of
        [] \<Rightarrow> None
      | c # cs \<Rightarrow>
          (let body = (if c = CHR ''-'' \<or> c = CHR ''+'' then cs else c # cs)
           in case parse_special body of
                Some x \<Rightarrow> Some (if c = CHR ''-'' then f_neg x else x)
              | None \<Rightarrow>
                  (case parse_number body of
                     None \<Rightarrow> None
                   | Some ((ip, fd), r) \<Rightarrow>
                       (case parse_exponent r of
                          None \<Rightarrow> None
                        | Some e \<Rightarrow>
                            Some (Fin (if c = CHR ''-'' then - decimal_value ip fd e
                                       else decimal_value ip fd e))))))"

text \<open>\<open>float(v)\<close>: \<open>None\<close> raises \<open>TypeError\<close>, a string that does not parse \<open>ValueError\<close>.\<close>

definition py_float :: "pyval \<Rightarrow> exn + pyfloat" where
  "py_float v =
     (case v of
        PNone \<Rightarrow> Inl TypeError
      | PNum x \<Rightarrow> Inr x
      | PStr s \<Rightarrow> (case py_float_str s of None \<Rightarrow> Inl ValueError | Some x \<Rightarrow> Inr x))"

text \<open>\<open>v > c\<close> for a number \<open>c\<close>: ordering a string or \<open>None\<close> against a number raises \<open>TypeError\<close>.\<close>

definition py_gt :: "pyval \<Rightarrow> rat \<Rightarrow> exn + bool" where
  "py_gt v c =
     (case v of
        PNone \<Rightarrow> Inl TypeError
      | PNum x \<Rightarrow> Inr (f_gt x c)
      | PStr s \<Rightarrow> Inl TypeError)"

section \<open>Formatting helpers\<close>

definition format_number :: "pyval \<Rightarrow> exn + pyval" where
  "format_number n =
     (if n = PNone then Inr PNone
      else
        (case py_float n of
           Inl e \<Rightarrow> if e = ValueError \<or> e = TypeError then Inr n else Inl e
         | Inr x \<Rightarrow>
             if f_ge (f_abs x) 1000000000000 then
               Inr (PStr (fmt2 (f_div x 1000000000000) @ '' T''))
             else if f_ge (f_abs x) 1000000000 then
               Inr (PStr (fmt2 (f_div x 1000000000) @ '' B''))
             else if f_ge (f_abs x) 1000000 then
               Inr (PStr (fmt2 (f_div x 1000000) @ '' M''))
             else Inr (PStr (fmt2 x))))"

text \<open>
  The body of the \<open>try\<close> in \<open>format_percent\<close>: the condition \<open>p > 1\<close> of the conditional
  expression is evaluated first, on \<open>p\<close> itself, and only then \<open>float(p)\<close>.
\<close>

definition format_percent_try :: "pyval \<Rightarrow> exn + string" where
  "format_percent_try p =
     (case py_gt p 1 of
        Inl e \<Rightarrow> Inl e
      | Inr b \<Rightarrow>
          (case py_float p of
             Inl e \<Rightarrow> Inl e
           | Inr x \<Rightarrow> if b then Inr (fmt2 x @ ''%'') else Inr (fmt2 (f_mul x 100) @ ''%'')))"

definition format_percent :: "pyval \<Rightarrow> exn + pyval" where
  "format_percent p =
     (if p = PNone then Inr PNone
      else
        (case format_percent_try p of
           Inl e \<Rightarrow> if e = ValueError \<or> e = TypeError then Inr p else Inl e
         | Inr s \<Rightarrow> Inr (PStr s)))"

section \<open>Dictionaries and data frames\<close>

text \<open>
  A Python \<open>dict\<close> keeps its keys in insertion order and a second store under a key
  replaces the value in place: an association list updated by \<open>AList.update\<close>.
\<close>

type_synonym pydict = "(string \<times> pyval) list"

definition dict_update :: "pydict \<Rightarrow> pydict \<Rightarrow> pydict" where
  "dict_update d e = foldl (\<lambda>acc kv. AList.update (fst kv) (snd kv) acc) d e"

text \<open>
  A pandas frame is modelled by the length of its index and its named columns, in order.
  The containers hold the values the program stores in them; the numeric type inference
  of the library is not modelled. A cell that nothing supplies holds the library's missing
  value, which is NaN.
\<close>

record dataframe =
  index_len :: nat
  cols :: "(string \<times> pyval list) list"



text \<open>\<open>df.empty\<close>: one of the two axes has length zero.\<close>

definition df_empty :: "dataframe \<Rightarrow> bool" where
  "df_empty df = (index_len df = 0 \<or> cols df = [])"

text \<open>\<open>df.iloc[:, j]\<close>: the column at position \<open>j\<close>, or \<open>IndexError\<close>.\<close>

definition iloc_col :: "dataframe \<Rightarrow> nat \<Rightarrow> exn + pyval list" where
  "iloc_col df j = (if j < length (cols df) then Inr (snd (cols df ! j)) else Inl IndexError)"






section \<open>Ownership resolver\<close>

definition all_none :: pydict where
  "all_none =
     [(''Insider (%)'', PNone), (''Institutional (%)'', PNone), (''Float / Retail (%)'', PNone)]"

definition opt_val :: "pyfloat option \<Rightarrow> pyval" where
  "opt_val v = (case v of None \<Rightarrow> PNone | Some x \<Rightarrow> PNum x)"

text \<open>
  \<open>float(str(val).strip('%'))\<close>. \<open>strip\<close> removes every leading and every trailing
  percent sign. The text of a number holds no percent sign and converts back to the number.
\<close>

definition pct_to_float :: "pyval \<Rightarrow> exn + pyfloat option" where
  "pct_to_float val =
     (case val of
        PNone \<Rightarrow> Inr None
      | PNum x \<Rightarrow> Inr (Some x)
      | PStr s \<Rightarrow>
          (case py_float_str (strip_chars (\<lambda>c. c = CHR ''%'') s) of
             None \<Rightarrow> Inl ValueError
           | Some x \<Rightarrow> Inr (Some x)))"

definition derive_float :: "pyfloat option \<Rightarrow> pyfloat option \<Rightarrow> pyfloat option" where
  "derive_float insider inst =
     (case inst of
        None \<Rightarrow> None
      | Some i \<Rightarrow>
          (case insider of
             None \<Rightarrow> Some (f_sub (Fin 100) i)
           | Some s \<Rightarrow> Some (f_sub (f_sub (Fin 100) i) s)))"

text \<open>
  \<open>dict(zip(labels, values)).get(k, None)\<close>: of several rows with the label \<open>k\<close> the last
  one counts.
\<close>

definition major_get :: "pyval list \<Rightarrow> pyval list \<Rightarrow> string \<Rightarrow> pyval" where
  "major_get labels vals k =
     (case map_of (rev (zip labels vals)) (PStr k) of None \<Rightarrow> PNone | Some v \<Rightarrow> v)"

text \<open>
  The remote lookup of the major holders is a parameter: it raises, or returns \<open>None\<close>,
  or returns a table. The body of the \<open>try\<close> comes first, then the function with its handler.
\<close>

type_synonym holders_lookup = "string \<Rightarrow> exn + dataframe option"

definition parse_major_holders_try :: "holders_lookup \<Rightarrow> string \<Rightarrow> exn + pydict" where
  "parse_major_holders_try lookup ticker =
     (case lookup ticker of
        Inl e \<Rightarrow> Inl e
      | Inr None \<Rightarrow> Inr all_none
      | Inr (Some major) \<Rightarrow>
          if df_empty major then Inr all_none
          else
            (case iloc_col major 0 of
               Inl e \<Rightarrow> Inl e
             | Inr labels \<Rightarrow>
                 (case iloc_col major 1 of
                    Inl e \<Rightarrow> Inl e
                  | Inr vals \<Rightarrow>
                      (case pct_to_float (major_get labels vals ''Insiders (%)'') of
                         Inl e \<Rightarrow> Inl e
                       | Inr insider_pct \<Rightarrow>
                           (case pct_to_float (major_get labels vals ''Institutions'') of
                              Inl e \<Rightarrow> Inl e
                            | Inr inst_pct \<Rightarrow>
                                Inr [(''Insider (%)'', opt_val insider_pct),
                                     (''Institutional (%)'', opt_val inst_pct),
                                     (''Float / Retail (%)'',
                                        opt_val (derive_float insider_pct inst_pct))])))))"

text \<open>Every error of the model is a Python \<open>Exception\<close>, which the handler catches.\<close>

definition is_Exception :: "exn \<Rightarrow> bool" where
  "is_Exception e = True"

definition parse_major_holders :: "holders_lookup \<Rightarrow> string \<Rightarrow> exn + pydict" where
  "parse_major_holders lookup ticker =
     (case parse_major_holders_try lookup ticker of
        Inl e \<Rightarrow> if is_Exception e then Inr all_none else Inl e
      | Inr s \<Rightarrow> Inr s)"

text \<open>A two-column table of major holders from its rows.\<close>

definition holders_table :: "(pyval \<times> pyval) list \<Rightarrow> dataframe" where
  "holders_table rows =
     \<lparr>index_len = length rows, cols = [(''0'', map fst rows), (''1'', map snd rows)]\<rparr>"

section \<open>Cleaned projection\<close>






section \<open>Driver\<close>

text \<open>
  The remote lookup of the full information is a parameter: it raises or returns a
  dictionary. One round of the loop appends exactly one row.
\<close>

type_synonym info_lookup = "string \<Rightarrow> exn + pydict"

definition fetch_try :: "info_lookup \<Rightarrow> holders_lookup \<Rightarrow> string \<Rightarrow> exn + pydict" where
  "fetch_try info_of holders_of t =
     (case info_of t of
        Inl e \<Rightarrow> Inl e
      | Inr info \<Rightarrow>
          (case parse_major_holders holders_of t of
             Inl e \<Rightarrow> Inl e
           | Inr ownership \<Rightarrow>
               Inr (dict_update (AList.update ''_ticker'' (PStr t) info) ownership)))"

definition fetch_row :: "info_lookup \<Rightarrow> holders_lookup \<Rightarrow> string \<Rightarrow> pydict" where
  "fetch_row info_of holders_of t =
     (case fetch_try info_of holders_of t of
        Inl e \<Rightarrow> [(''_ticker'', PStr t)]
      | Inr info \<Rightarrow> info)"

fun fetch_loop :: "info_lookup \<Rightarrow> holders_lookup \<Rightarrow> pydict list \<Rightarrow> string list \<Rightarrow> pydict list" where
  "fetch_loop info_of holders_of raw_rows [] = raw_rows"
| "fetch_loop info_of holders_of raw_rows (t # ts) =
     fetch_loop info_of holders_of (raw_rows @ [fetch_row info_of holders_of t]) ts"



section \<open>Auxiliary definitions for the statements\<close>











section \<open>Properties of the formatting helpers\<close>














text \<open>
  Claim C3 at its failing input. A string that holds a number converts with \<open>float\<close>, and
  \<open>format_number\<close> formats such a string; \<open>format_percent\<close> compares the string itself with
  \<open>1\<close> first, which raises \<open>TypeError\<close>, and returns the string unchanged.
\<close>

theorem format_percent_numeric_string:
  "py_float (PStr ''5.32'') = Inr (Fin (532 / 100))
   \<and> py_gt (PStr ''5.32'') 1 = Inl TypeError
   \<and> format_percent (PStr ''5.32'') = Inr (PStr ''5.32'')
   \<and> format_percent (PNum (Fin (532 / 100))) = Inr (PStr ''5.32%'')
   \<and> py_float (PStr ''0.0532'') = Inr (Fin (532 / 10000))
   \<and> format_percent (PStr ''0.0532'') = Inr (PStr ''0.0532'')
   \<and> format_percent (PNum (Fin (532 / 10000))) = Inr (PStr ''5.32%'')
   \<and> format_number (PStr ''1500000000'') = Inr (PStr ''1.50 B'')"
proof -
  have a: "py_float (PStr ''5.32'') = Inr (Fin (532 / 100))" by code_simp
  have b: "py_gt (PStr ''5.32'') 1 = Inl TypeError" by (simp add: py_gt_def)
  have c: "format_percent (PStr ''5.32'') = Inr (PStr ''5.32'')"
    by (simp add: format_percent_def format_percent_try_def py_gt_def)
  have d: "format_percent (PNum (Fin (532 / 100))) = Inr (PStr ''5.32%'')" by code_simp
  have e: "py_float (PStr ''0.0532'') = Inr (Fin (532 / 10000))" by code_simp
  have f: "format_percent (PStr ''0.0532'') = Inr (PStr ''0.0532'')"
    by (simp add: format_percent_def format_percent_try_def py_gt_def)
  have g: "format_percent (PNum (Fin (532 / 10000))) = Inr (PStr ''5.32%'')" by code_simp
  have h: "format_number (PStr ''1500000000'') = Inr (PStr ''1.50 B'')" by code_simp
  from a b c d e f g h show ?thesis by simp
qed

text \<open>
  Claim C4, as amended. The test is \<open>p > 1\<close>, which the value \<open>1.0\<close> does not pass: it is
  taken as a fraction, multiplied by \<open>100\<close>, and rendered as 100.00%.
\<close>

theorem format_percent_one:
  "py_gt (PNum (Fin 1)) 1 = Inr False
   \<and> format_percent (PNum (Fin 1)) = Inr (PStr ''100.00%'')"
proof -
  have a: "py_gt (PNum (Fin 1)) 1 = Inr False" by (simp add: py_gt_def)
  have b: "format_percent (PNum (Fin 1)) = Inr (PStr ''100.00%'')" by code_simp
  from a b show ?thesis by simp
qed

text \<open>Claim C4 as stated fails: the value \<open>1.0\<close> is not rendered as 1.00%.\<close>

theorem format_percent_one_counterexample:
  "format_percent (PNum (Fin 1)) \<noteq> Inr (PStr ''1.00%'')"
proof -
  have "format_percent (PNum (Fin 1)) = Inr (PStr ''100.00%'')" by code_simp
  then show ?thesis by simp
qed



section \<open>Properties of the ownership resolver\<close>





lemma try_nonempty:
  assumes "lookup ticker = Inr (Some major)" "\<not> df_empty major"
    "iloc_col major 0 = Inr labels" "iloc_col major 1 = Inr vals"
  shows "parse_major_holders_try lookup ticker =
     (case pct_to_float (major_get labels vals ''Insiders (%)'') of
        Inl e \<Rightarrow> Inl e
      | Inr i \<Rightarrow>
          (case pct_to_float (major_get labels vals ''Institutions'') of
             Inl e \<Rightarrow> Inl e
           | Inr j \<Rightarrow>
               Inr [(''Insider (%)'', opt_val i), (''Institutional (%)'', opt_val j),
                    (''Float / Retail (%)'', opt_val (derive_float i j))]))"
  using assms by (simp add: parse_major_holders_try_def)

lemma try_cases:
  assumes "parse_major_holders_try lookup ticker = Inr r"
  shows "r = all_none \<or>
     (\<exists>major labels vals i j. lookup ticker = Inr (Some major) \<and> \<not> df_empty major \<and>
        iloc_col major 0 = Inr labels \<and> iloc_col major 1 = Inr vals \<and>
        pct_to_float (major_get labels vals ''Insiders (%)'') = Inr i \<and>
        pct_to_float (major_get labels vals ''Institutions'') = Inr j \<and>
        r = [(''Insider (%)'', opt_val i), (''Institutional (%)'', opt_val j),
             (''Float / Retail (%)'', opt_val (derive_float i j))])"
proof (cases "lookup ticker")
  case (Inl e)
  with assms show ?thesis by (simp add: parse_major_holders_try_def)
next
  case (Inr m)
  show ?thesis
  proof (cases m)
    case None
    with Inr assms show ?thesis by (simp add: parse_major_holders_try_def)
  next
    case (Some major)
    with Inr have lk: "lookup ticker = Inr (Some major)" by simp
    show ?thesis
    proof (cases "df_empty major")
      case True
      with lk assms show ?thesis by (simp add: parse_major_holders_try_def)
    next
      case False
      show ?thesis
      proof (cases "iloc_col major 0")
        case (Inl e)
        with lk False assms show ?thesis by (simp add: parse_major_holders_try_def)
      next
        case l: (Inr labels)
        show ?thesis
        proof (cases "iloc_col major 1")
          case (Inl e)
          with lk False l assms show ?thesis by (simp add: parse_major_holders_try_def)
        next
          case v: (Inr vals)
          note t = try_nonempty [of lookup ticker major labels vals, OF lk False l v]
          show ?thesis
          proof (cases "pct_to_float (major_get labels vals ''Insiders (%)'')")
            case (Inl e)
            with t assms show ?thesis by simp
          next
            case i: (Inr i)
            show ?thesis
            proof (cases "pct_to_float (major_get labels vals ''Institutions'')")
              case (Inl e)
              with t i assms show ?thesis by simp
            next
              case j: (Inr j)
              with t i assms
              have "r = [(''Insider (%)'', opt_val i), (''Institutional (%)'', opt_val j),
                         (''Float / Retail (%)'', opt_val (derive_float i j))]"
                by simp
              with lk False l v i j show ?thesis by blast
            qed
          qed
        qed
      qed
    qed
  qed
qed

lemma pmh_cases:
  assumes "parse_major_holders lookup ticker = Inr r"
  shows "r = all_none \<or> parse_major_holders_try lookup ticker = Inr r"
  using assms by (cases "parse_major_holders_try lookup ticker")
    (simp_all add: parse_major_holders_def is_Exception_def)

lemma pmh_total: "\<exists>s. parse_major_holders lookup ticker = Inr s"
  by (cases "parse_major_holders_try lookup ticker")
    (simp_all add: parse_major_holders_def is_Exception_def)

lemma all_none_shape:
  "all_none = [(''Insider (%)'', opt_val None), (''Institutional (%)'', opt_val None),
               (''Float / Retail (%)'', opt_val (derive_float None None))]"
  by (simp add: all_none_def opt_val_def derive_float_def)

lemma pmh_shape:
  "\<exists>i j. parse_major_holders lookup ticker =
     Inr [(''Insider (%)'', opt_val i), (''Institutional (%)'', opt_val j),
          (''Float / Retail (%)'', opt_val (derive_float i j))]"
proof -
  from pmh_total obtain r where r: "parse_major_holders lookup ticker = Inr r" by blast
  from pmh_cases [OF r] try_cases [of lookup ticker r]
  have "r = all_none \<or> (\<exists>i j. r = [(''Insider (%)'', opt_val i), (''Institutional (%)'', opt_val j),
          (''Float / Retail (%)'', opt_val (derive_float i j))])"
    by blast
  with all_none_shape r show ?thesis by metis
qed


text \<open>
  Claim C6. The resolver always returns a summary, never an error. Whatever fails in its
  body: the lookup, a table with fewer than two columns, or the conversion of either
  value, the result is the summary with all three fields absent; a value that did convert
  is discarded with the one that did not.
\<close>

theorem resolver_failures_contained:
  "(\<exists>s. parse_major_holders lookup ticker = Inr s)
   \<and> (\<forall>e. parse_major_holders_try lookup ticker = Inl e \<longrightarrow>
         parse_major_holders lookup ticker = Inr all_none)
   \<and> (\<forall>e. lookup ticker = Inl e \<longrightarrow> parse_major_holders lookup ticker = Inr all_none)
   \<and> (\<forall>major. lookup ticker = Inr (Some major) \<longrightarrow> \<not> df_empty major \<longrightarrow>
         length (cols major) < 2 \<longrightarrow> parse_major_holders lookup ticker = Inr all_none)
   \<and> (\<forall>major labels vals k e.
         lookup ticker = Inr (Some major) \<longrightarrow> \<not> df_empty major \<longrightarrow>
         iloc_col major 0 = Inr labels \<longrightarrow> iloc_col major 1 = Inr vals \<longrightarrow>
         k \<in> {''Insiders (%)'', ''Institutions''} \<longrightarrow>
         pct_to_float (major_get labels vals k) = Inl e \<longrightarrow>
         parse_major_holders lookup ticker = Inr all_none)
   \<and> parse_major_holders
        (\<lambda>t. Inr (Some (holders_table
           [(PStr ''Insiders (%)'', PStr ''5.00%''), (PStr ''Institutions'', PStr ''n/a'')])))
        t1 = Inr all_none"
proof -
  have b: "parse_major_holders lookup ticker = Inr all_none"
    if "parse_major_holders_try lookup ticker = Inl e" for e
    using that by (simp add: parse_major_holders_def is_Exception_def)
  have c: "parse_major_holders lookup ticker = Inr all_none" if "lookup ticker = Inl e" for e
    by (rule b [of e]) (use that in \<open>simp add: parse_major_holders_try_def\<close>)
  have d: "parse_major_holders lookup ticker = Inr all_none"
    if "lookup ticker = Inr (Some major)" "\<not> df_empty major" "length (cols major) < 2"
    for major
  proof (cases "iloc_col major 0")
    case (Inl e)
    with that have "parse_major_holders_try lookup ticker = Inl e"
      by (simp add: parse_major_holders_try_def)
    then show ?thesis by (rule b)
  next
    case (Inr labels)
    from that(3) have "iloc_col major 1 = Inl IndexError" by (simp add: iloc_col_def)
    with Inr that have "parse_major_holders_try lookup ticker = Inl IndexError"
      by (simp add: parse_major_holders_try_def)
    then show ?thesis by (rule b)
  qed
  have e: "parse_major_holders lookup ticker = Inr all_none"
    if lk: "lookup ticker = Inr (Some major)" and ne: "\<not> df_empty major"
      and l: "iloc_col major 0 = Inr labels" and v: "iloc_col major 1 = Inr vals"
      and k: "k \<in> {''Insiders (%)'', ''Institutions''}"
      and f: "pct_to_float (major_get labels vals k) = Inl e"
    for major labels vals k e
  proof -
    note t = try_nonempty [of lookup ticker major labels vals, OF lk ne l v]
    from k f t have "\<exists>e'. parse_major_holders_try lookup ticker = Inl e'"
      by (auto split: sum.splits)
    with b show ?thesis by blast
  qed
  have f: "parse_major_holders
        (\<lambda>t. Inr (Some (holders_table
           [(PStr ''Insiders (%)'', PStr ''5.00%''), (PStr ''Institutions'', PStr ''n/a'')])))
        t1 = Inr all_none"
    by code_simp
  show ?thesis
    using pmh_total [of lookup ticker] b c d e f by blast
qed

theorem resolver_failures_contained_witness:
  "parse_major_holders (\<lambda>t. Inl LookupFailure) ''BBCA.JK'' = Inr all_none
   \<and> \<not> df_empty (\<lparr>index_len = 1, cols = [(''0'', [PStr ''Institutions''])]\<rparr>)
   \<and> length (cols (\<lparr>index_len = 1, cols = [(''0'', [PStr ''Institutions''])]\<rparr>)) < 2
   \<and> parse_major_holders
        (\<lambda>t. Inr (Some \<lparr>index_len = 1, cols = [(''0'', [PStr ''Institutions''])]\<rparr>))
        ''BBCA.JK'' = Inr all_none
   \<and> pct_to_float (major_get [PStr ''Insiders (%)'', PStr ''Institutions'']
        [PStr ''5.00%'', PStr ''n/a''] ''Institutions'') = Inl ValueError
   \<and> parse_major_holders
        (\<lambda>t. Inr (Some (holders_table
           [(PStr ''Insiders (%)'', PStr ''5.00%''), (PStr ''Institutions'', PStr ''n/a'')])))
        ''BBCA.JK'' = Inr all_none"
proof -
  let ?one = "\<lparr>index_len = 1, cols = [(''0'', [PStr ''Institutions''])]\<rparr>"
  let ?two = "holders_table
           [(PStr ''Insiders (%)'', PStr ''5.00%''), (PStr ''Institutions'', PStr ''n/a'')]"
  let ?labels = "[PStr ''Insiders (%)'', PStr ''Institutions'']"
  let ?vals = "[PStr ''5.00%'', PStr ''n/a'']"
  have a: "parse_major_holders (\<lambda>t. Inl LookupFailure) ''BBCA.JK'' = Inr all_none"
    using resolver_failures_contained [of "\<lambda>t. Inl LookupFailure" "''BBCA.JK''"] by blast
  have b1: "\<not> df_empty ?one" by (simp add: df_empty_def)
  have b2: "length (cols ?one) < 2" by simp
  have b: "parse_major_holders (\<lambda>t. Inr (Some ?one)) ''BBCA.JK'' = Inr all_none"
    using resolver_failures_contained [of "\<lambda>t. Inr (Some ?one)" "''BBCA.JK''"] b1 b2
    by blast
  have c1: "\<not> df_empty ?two" by (simp add: df_empty_def holders_table_def)
  have c2: "iloc_col ?two 0 = Inr ?labels" by (simp add: iloc_col_def holders_table_def)
  have c3: "iloc_col ?two 1 = Inr ?vals" by (simp add: iloc_col_def holders_table_def)
  have c4: "pct_to_float (major_get ?labels ?vals ''Institutions'') = Inl ValueError"
    by code_simp
  have c5: "''Institutions'' \<in> {''Insiders (%)'', ''Institutions''}" by simp
  have c: "parse_major_holders (\<lambda>t. Inr (Some ?two)) ''BBCA.JK'' = Inr all_none"
    using resolver_failures_contained [of "\<lambda>t. Inr (Some ?two)" "''BBCA.JK''"]
      c1 c2 c3 c4 c5
    by blast
  from a b1 b2 b c4 c show ?thesis by blast
qed





section \<open>Properties of the driver\<close>

lemma fetch_loop_append:
  "fetch_loop info_of holders_of acc ts = acc @ map (fetch_row info_of holders_of) ts"
  by (induction ts arbitrary: acc) simp_all

lemma dict_update_other:
  "k \<notin> fst ` set e \<Longrightarrow> map_of (dict_update d e) k = map_of d k"
proof (induction e arbitrary: d)
  case Nil
  then show ?case by (simp add: dict_update_def)
next
  case (Cons kv e)
  from Cons.prems have k1: "k \<noteq> fst kv" and k2: "k \<notin> fst ` set e" by auto
  have "map_of (dict_update d (kv # e)) k =
        map_of (dict_update (AList.update (fst kv) (snd kv) d) e) k"
    by (simp add: dict_update_def)
  also from Cons.IH [OF k2] have "\<dots> = map_of (AList.update (fst kv) (snd kv) d) k" .
  also from k1 have "\<dots> = map_of d k" by (simp add: update_conv')
  finally show ?case .
qed

lemma pmh_keys:
  assumes "parse_major_holders holders_of t = Inr s"
  shows "fst ` set s = {''Insider (%)'', ''Institutional (%)'', ''Float / Retail (%)''}"
proof -
  from pmh_shape [of holders_of t] assms obtain i j where
    "s = [(''Insider (%)'', opt_val i), (''Institutional (%)'', opt_val j),
          (''Float / Retail (%)'', opt_val (derive_float i j))]"
    by auto
  then show ?thesis by auto
qed

lemma fetch_row_ticker: "map_of (fetch_row info_of holders_of t) ''_ticker'' = Some (PStr t)"
proof (cases "fetch_try info_of holders_of t")
  case (Inl e)
  then show ?thesis by (simp add: fetch_row_def)
next
  case (Inr row)
  then obtain info s where s: "parse_major_holders holders_of t = Inr s"
    and row: "row = dict_update (AList.update ''_ticker'' (PStr t) info) s"
    by (auto simp: fetch_try_def split: sum.splits)
  from pmh_keys [OF s] have "''_ticker'' \<notin> fst ` set s" by simp
  then have "map_of row ''_ticker'' = map_of (AList.update ''_ticker'' (PStr t) info) ''_ticker''"
    unfolding row by (rule dict_update_other)
  also have "\<dots> = Some (PStr t)" by (simp add: update_conv')
  finally show ?thesis using Inr by (simp add: fetch_row_def)
qed

lemma fetch_row_failed:
  "info_of t = Inl e \<Longrightarrow> fetch_row info_of holders_of t = [(''_ticker'', PStr t)]"
  by (simp add: fetch_row_def fetch_try_def)

text \<open>
  Claim C7. For every list of tickers the loop produces exactly one row per ticker, in the
  order of the input: the row at each position carries the ticker at that position. A
  ticker whose lookup of the full information fails gets the row that holds the ticker
  symbol alone, and when every lookup fails all rows are of that kind.
\<close>

theorem one_row_per_ticker:
  "length (fetch_loop info_of holders_of [] tickers) = length tickers
   \<and> map (\<lambda>r. map_of r ''_ticker'') (fetch_loop info_of holders_of [] tickers) =
       map (\<lambda>t. Some (PStr t)) tickers
   \<and> (\<forall>k e. k < length tickers \<longrightarrow> info_of (tickers ! k) = Inl e \<longrightarrow>
         fetch_loop info_of holders_of [] tickers ! k = [(''_ticker'', PStr (tickers ! k))])
   \<and> ((\<forall>t. \<exists>e. info_of t = Inl e) \<longrightarrow>
         fetch_loop info_of holders_of [] tickers = map (\<lambda>t. [(''_ticker'', PStr t)]) tickers)"
proof -
  have rows: "fetch_loop info_of holders_of [] tickers = map (fetch_row info_of holders_of) tickers"
    by (simp add: fetch_loop_append)
  have a: "length (fetch_loop info_of holders_of [] tickers) = length tickers"
    by (simp add: rows)
  have b: "map (\<lambda>r. map_of r ''_ticker'') (fetch_loop info_of holders_of [] tickers) =
       map (\<lambda>t. Some (PStr t)) tickers"
    by (simp add: rows fetch_row_ticker)
  have c: "fetch_loop info_of holders_of [] tickers ! k = [(''_ticker'', PStr (tickers ! k))]"
    if "k < length tickers" "info_of (tickers ! k) = Inl e" for k e
    using that by (simp add: rows fetch_row_failed)
  have d: "fetch_loop info_of holders_of [] tickers = map (\<lambda>t. [(''_ticker'', PStr t)]) tickers"
    if "\<forall>t. \<exists>e. info_of t = Inl e"
  proof -
    have "fetch_row info_of holders_of t = [(''_ticker'', PStr t)]" for t
      using that fetch_row_failed [of info_of t] by blast
    then show ?thesis by (simp add: rows)
  qed
  from a b c d show ?thesis by blast
qed

theorem one_row_per_ticker_witness:
  "(1::nat) < length [''BBCA.JK'', ''TLKM.JK'']
   \<and> (\<lambda>t. Inl LookupFailure :: exn + pydict) ([''BBCA.JK'', ''TLKM.JK''] ! 1) = Inl LookupFailure
   \<and> fetch_loop (\<lambda>t. Inl LookupFailure) (\<lambda>t. Inl LookupFailure) [] [''BBCA.JK'', ''TLKM.JK''] ! 1 =
       [(''_ticker'', PStr ''TLKM.JK'')]
   \<and> fetch_loop (\<lambda>t. Inl LookupFailure) (\<lambda>t. Inl LookupFailure) [] [''BBCA.JK'', ''TLKM.JK''] =
       [[(''_ticker'', PStr ''BBCA.JK'')], [(''_ticker'', PStr ''TLKM.JK'')]]"
proof -
  note th = one_row_per_ticker [of "\<lambda>t. Inl LookupFailure" "\<lambda>t. Inl LookupFailure"
      "[''BBCA.JK'', ''TLKM.JK'']"]
  have h1: "(1::nat) < length [''BBCA.JK'', ''TLKM.JK'']" by simp
  have h2: "(\<lambda>t. Inl LookupFailure :: exn + pydict) ([''BBCA.JK'', ''TLKM.JK''] ! 1) =
      Inl LookupFailure"
    by simp
  have h3: "\<forall>t::string. \<exists>e. (Inl LookupFailure :: exn + pydict) = Inl e" by simp
  from th h1 h2
  have "fetch_loop (\<lambda>t. Inl LookupFailure) (\<lambda>t. Inl LookupFailure) [] [''BBCA.JK'', ''TLKM.JK''] ! 1 =
       [(''_ticker'', PStr ([''BBCA.JK'', ''TLKM.JK''] ! 1))]"
    by blast
  then have c: "fetch_loop (\<lambda>t. Inl LookupFailure) (\<lambda>t. Inl LookupFailure) [] [''BBCA.JK'', ''TLKM.JK''] ! 1 =
       [(''_ticker'', PStr ''TLKM.JK'')]"
    by simp
  from th h3
  have "fetch_loop (\<lambda>t. Inl LookupFailure) (\<lambda>t. Inl LookupFailure) [] [''BBCA.JK'', ''TLKM.JK''] =
       map (\<lambda>t. [(''_ticker'', PStr t)]) [''BBCA.JK'', ''TLKM.JK'']"
    by blast
  then have d: "fetch_loop (\<lambda>t. Inl LookupFailure) (\<lambda>t. Inl LookupFailure) [] [''BBCA.JK'', ''TLKM.JK''] =
       [[(''_ticker'', PStr ''BBCA.JK'')], [(''_ticker'', PStr ''TLKM.JK'')]]"
    by simp
  from h1 h2 c d show ?thesis by blast
qed

section \<open>Properties of the cleaned projection\<close>















































end
